theory Spec2Isabelle
  imports Complex_Main "HOL-Library.AList"
begin

section \<open>Hydrogen-bond decomposition of a water configuration\<close>

text \<open>
  A shallow embedding of \<^verbatim>\<open>water/analysis/hbond_decomposition.py\<close>.

  Atom indices are Python integers (\<open>int\<close>); counts and lengths are \<open>nat\<close>.
  Distances, angles, cut-offs and the quotients computed by \<^verbatim>\<open>/\<close> are modelled as
  \<open>real\<close>: the comparisons of the source are exact on the values they receive, and
  rounding of the quotients is outside this model.
\<close>

subsection \<open>Errors and the external atoms object\<close>

text \<open>
  \<open>AssertionError\<close> is what a failed \<^verbatim>\<open>assert\<close> raises, \<open>ZeroDivisionError\<close> what
  \<^verbatim>\<open>/\<close> raises on a zero divisor, and \<open>ReadError\<close> stands for any exception of the
  structure reader \<^verbatim>\<open>ase.io.read\<close>. \<open>MalformedMoleculeError\<close> is the name in the error
  taxonomy of the specification; the source defines no exception of that name and raises
  none, so no function below returns it.

  The model is of the interpreter's default mode, in which \<^verbatim>\<open>assert\<close> statements are
  executed; under \<^verbatim>\<open>python -O\<close> they are removed.
\<close>

datatype error = AssertionError | ZeroDivisionError | ReadError | MalformedMoleculeError

text \<open>
  The ASE \<^verbatim>\<open>Atoms\<close> object is an external collaborator. The program uses three of
  its operations, which are taken as the fields of a record: \<^verbatim>\<open>len(atoms)\<close>,
  \<^verbatim>\<open>atoms.get_distance(a0, a1, mic)\<close> and \<^verbatim>\<open>atoms.get_angle(a1, a2, a3, mic)\<close>
  (the angle in degrees with its vertex at \<open>a2\<close>). The flag \<open>mic\<close> selects the
  minimum-image convention; ASE's default for it is \<open>False\<close>.
\<close>

record atoms =
  len_atoms :: nat
  get_distance :: "int \<Rightarrow> int \<Rightarrow> bool \<Rightarrow> real"
  get_angle :: "int \<Rightarrow> int \<Rightarrow> int \<Rightarrow> bool \<Rightarrow> real"

text \<open>
  A water molecule is the dictionary \<^verbatim>\<open>{'O': base, 'H': [base + 1, base + 2]}\<close>; the keys
  \<^verbatim>\<open>'O'\<close> and \<^verbatim>\<open>'H'\<close> become the fields \<open>O_index\<close> and \<open>H_indices\<close>.
\<close>

record water =
  O_index :: int
  H_indices :: "int list"

text \<open>A hydrogen bond is the tuple (acceptor oxygen, donor oxygen, hydrogen).\<close>

type_synonym hbond = "int \<times> int \<times> int"

subsection \<open>\<^verbatim>\<open>build_water_molecules\<close>\<close>

text \<open>
  The loop \<^verbatim>\<open>for i in range(n_waters)\<close>: the molecule is appended first, then the two
  assertions are checked in order; a failed assertion leaves the function at once.
\<close>

fun build_loop :: "atoms \<Rightarrow> nat list \<Rightarrow> water list \<Rightarrow> error + water list" where
  "build_loop atoms [] water_mols = Inr water_mols"
| "build_loop atoms (i # rest) water_mols =
     (let base = 3 * int i;
          water_mols' = water_mols @ [\<lparr>O_index = base, H_indices = [base + 1, base + 2]\<rparr>]
      in if \<not> get_distance atoms base (base + 1) False < 1.5 then Inl AssertionError
         else if \<not> get_distance atoms base (base + 2) False < 1.5 then Inl AssertionError
         else build_loop atoms rest water_mols')"

definition build_water_molecules :: "atoms \<Rightarrow> error + water list" where
  "build_water_molecules atoms =
     (let n_atoms = len_atoms atoms;
          n_waters = n_atoms div 3
      in build_loop atoms [0..<n_waters] [])"

subsection \<open>\<^verbatim>\<open>find_hydrogen_bonds\<close>\<close>

text \<open>The innermost loop \<^verbatim>\<open>for h in donor['H']\<close>.\<close>

fun hydrogen_loop ::
  "atoms \<Rightarrow> real \<Rightarrow> int \<Rightarrow> int \<Rightarrow> int list \<Rightarrow> hbond list \<Rightarrow> hbond list" where
  "hydrogen_loop atoms angle_cutoff acceptor_O donor_O [] hbonds = hbonds"
| "hydrogen_loop atoms angle_cutoff acceptor_O donor_O (h # rest) hbonds =
     (let theta = get_angle atoms acceptor_O donor_O h True
      in hydrogen_loop atoms angle_cutoff acceptor_O donor_O rest
           (if theta < angle_cutoff then hbonds @ [(acceptor_O, donor_O, h)] else hbonds))"

text \<open>The middle loop \<^verbatim>\<open>for j, acceptor in enumerate(water_mols)\<close>.\<close>

fun acceptor_loop ::
  "atoms \<Rightarrow> real \<Rightarrow> real \<Rightarrow> nat \<Rightarrow> water \<Rightarrow> (nat \<times> water) list \<Rightarrow> hbond list \<Rightarrow> hbond list" where
  "acceptor_loop atoms distance_cutoff angle_cutoff i donor [] hbonds = hbonds"
| "acceptor_loop atoms distance_cutoff angle_cutoff i donor ((j, acceptor) # rest) hbonds =
     (if i = j then acceptor_loop atoms distance_cutoff angle_cutoff i donor rest hbonds
      else
        let donor_O = O_index donor;
            acceptor_O = O_index acceptor;
            OO_dist = get_distance atoms donor_O acceptor_O True
        in acceptor_loop atoms distance_cutoff angle_cutoff i donor rest
             (if OO_dist < distance_cutoff
              then hydrogen_loop atoms angle_cutoff acceptor_O donor_O (H_indices donor) hbonds
              else hbonds))"

text \<open>The outer loop \<^verbatim>\<open>for i, donor in enumerate(water_mols)\<close>.\<close>

fun donor_loop ::
  "atoms \<Rightarrow> real \<Rightarrow> real \<Rightarrow> water list \<Rightarrow> (nat \<times> water) list \<Rightarrow> hbond list \<Rightarrow> hbond list" where
  "donor_loop atoms distance_cutoff angle_cutoff water_mols [] hbonds = hbonds"
| "donor_loop atoms distance_cutoff angle_cutoff water_mols ((i, donor) # rest) hbonds =
     donor_loop atoms distance_cutoff angle_cutoff water_mols rest
       (acceptor_loop atoms distance_cutoff angle_cutoff i donor (enumerate 0 water_mols) hbonds)"

definition find_hydrogen_bonds :: "atoms \<Rightarrow> water list \<Rightarrow> real \<Rightarrow> real \<Rightarrow> hbond list" where
  "find_hydrogen_bonds atoms water_mols distance_cutoff angle_cutoff =
     donor_loop atoms distance_cutoff angle_cutoff water_mols (enumerate 0 water_mols) []"

text \<open>The call with the default arguments \<^verbatim>\<open>distance_cutoff=3.5, angle_cutoff=30\<close>.\<close>

definition find_hydrogen_bonds_default :: "atoms \<Rightarrow> water list \<Rightarrow> hbond list" where
  "find_hydrogen_bonds_default atoms water_mols = find_hydrogen_bonds atoms water_mols 3.5 30"

subsection \<open>\<^verbatim>\<open>calculate_average_hbonds\<close>\<close>

text \<open>Python's true division of two integers.\<close>

definition truediv :: "int \<Rightarrow> int \<Rightarrow> error + real" where
  "truediv a b = (if b = 0 then Inl ZeroDivisionError else Inr (real_of_int a / real_of_int b))"

text \<open>\<^verbatim>\<open>np.unique\<close>: the sorted distinct elements.\<close>

definition np_unique :: "int list \<Rightarrow> int list" where
  "np_unique xs = sort (remdups xs)"

text \<open>
  \<^verbatim>\<open>np.array(hbonds)\<close> stores all entries of the tuples with one element type, which numpy
  finds from the values (on a 64-bit platform): a Python integer that fits a signed 64-bit
  integer is \<open>Int64\<close>, one from \<open>2^63\<close> up to \<open>2^64 - 1\<close> is \<open>UInt64\<close>, any other is kept as
  a Python object; signed and unsigned 64-bit integers together give \<open>Float64\<close>, and an
  object among the entries makes the whole array an object array.
\<close>

datatype dtype = Int64 | UInt64 | Float64 | Object

definition in_int64 :: "int \<Rightarrow> bool" where
  "in_int64 x \<longleftrightarrow> - (2 ^ 63) \<le> x \<and> x < 2 ^ 63"

definition scalar_dtype :: "int \<Rightarrow> dtype" where
  "scalar_dtype x =
     (if in_int64 x then Int64
      else if 2 ^ 63 \<le> x \<and> x < 2 ^ 64 then UInt64
      else Object)"

fun promote_types :: "dtype \<Rightarrow> dtype \<Rightarrow> dtype" where
  "promote_types Object _ = Object"
| "promote_types _ Object = Object"
| "promote_types Float64 _ = Float64"
| "promote_types _ Float64 = Float64"
| "promote_types Int64 Int64 = Int64"
| "promote_types UInt64 UInt64 = UInt64"
| "promote_types Int64 UInt64 = Float64"
| "promote_types UInt64 Int64 = Float64"

text \<open>The element type of an array built from a list of integers (an empty one is float).\<close>

fun result_dtype :: "int list \<Rightarrow> dtype" where
  "result_dtype [] = Float64"
| "result_dtype [x] = scalar_dtype x"
| "result_dtype (x # xs) = promote_types (scalar_dtype x) (result_dtype xs)"

text \<open>
  The conversion of an integer to a double: the nearest number with a 53-bit significand,
  ties to the even significand. The double is represented by the integer it is equal to.
  (No entry of a \<open>Float64\<close> array is large enough to overflow.)
\<close>

fun bit_length :: "nat \<Rightarrow> nat" where
  "bit_length n = (if n = 0 then 0 else Suc (bit_length (n div 2)))"

declare bit_length.simps [simp del]

definition round_to_float64 :: "nat \<Rightarrow> nat" where
  "round_to_float64 n =
     (let e = bit_length n - 53;
          q = n div 2 ^ e;
          r = n mod 2 ^ e
      in if e = 0 then n
         else if 2 ^ e < 2 * r \<or> (2 * r = 2 ^ e \<and> odd q) then (q + 1) * 2 ^ e
         else q * 2 ^ e)"

definition float64 :: "int \<Rightarrow> int" where
  "float64 x =
     (if x < 0 then - int (round_to_float64 (nat (- x))) else int (round_to_float64 (nat x)))"

definition np_array :: "hbond list \<Rightarrow> hbond list" where
  "np_array hbonds =
     (if result_dtype (concat (map (\<lambda>(a, d, h). [a, d, h]) hbonds)) = Float64
      then map (\<lambda>(a, d, h). (float64 a, float64 d, float64 h)) hbonds
      else hbonds)"

definition calculate_average_hbonds :: "hbond list \<Rightarrow> error + real" where
  "calculate_average_hbonds hbonds =
     (if hbonds = [] then Inr 0
      else
        let hbond_array = np_array hbonds;
            unique_oxygens = np_unique (map fst hbond_array @ map (fst \<circ> snd) hbond_array);
            num_bonds = length hbonds
        in truediv (2 * int num_bonds) (int (length unique_oxygens)))"

subsection \<open>\<^verbatim>\<open>analyze_bond_counts\<close>\<close>

text \<open>
  Dictionaries are association lists in insertion order with distinct keys.
  \<open>incr k d\<close> is \<^verbatim>\<open>d[k] += 1\<close> on a \<^verbatim>\<open>defaultdict(int)\<close> or a \<^verbatim>\<open>Counter\<close>, and
  \<open>dict_get d k v\<close> is \<^verbatim>\<open>d.get(k, v)\<close>.
\<close>

definition dict_get :: "('k \<times> 'v) list \<Rightarrow> 'k \<Rightarrow> 'v \<Rightarrow> 'v" where
  "dict_get d k v = (case map_of d k of None \<Rightarrow> v | Some w \<Rightarrow> w)"

definition incr :: "'k \<Rightarrow> ('k \<times> nat) list \<Rightarrow> ('k \<times> nat) list" where
  "incr k d = AList.update k (dict_get d k 0 + 1) d"

record counts =
  accepting :: nat
  donating :: nat

text \<open>The tally loop \<^verbatim>\<open>for acceptor, donor, _ in hbonds\<close>.\<close>

fun tally_loop ::
  "hbond list \<Rightarrow> (int \<times> nat) list \<Rightarrow> (int \<times> nat) list \<Rightarrow> (int \<times> nat) list \<times> (int \<times> nat) list" where
  "tally_loop [] acceptor_counts donor_counts = (acceptor_counts, donor_counts)"
| "tally_loop ((acceptor, donor, _) # rest) acceptor_counts donor_counts =
     tally_loop rest (incr acceptor acceptor_counts) (incr donor donor_counts)"

text \<open>
  \<^verbatim>\<open>set(acceptor_counts.keys()).union(set(donor_counts.keys()))\<close>. The order in which
  Python iterates over a set is not specified; the model enumerates it in ascending
  order. The three results are dictionaries, whose content does not depend on that order.
\<close>

definition key_union :: "(int \<times> nat) list \<Rightarrow> (int \<times> nat) list \<Rightarrow> int list" where
  "key_union acceptor_counts donor_counts =
     sort (remdups (map fst acceptor_counts @ map fst donor_counts))"

text \<open>The loop \<^verbatim>\<open>for oxygen in all_oxygens\<close>.\<close>

fun oxygen_loop ::
  "(int \<times> nat) list \<Rightarrow> (int \<times> nat) list \<Rightarrow> int list \<Rightarrow> (int \<times> counts) list \<Rightarrow> (int \<times> counts) list" where
  "oxygen_loop acceptor_counts donor_counts [] oxygen_bond_counts = oxygen_bond_counts"
| "oxygen_loop acceptor_counts donor_counts (oxygen # rest) oxygen_bond_counts =
     oxygen_loop acceptor_counts donor_counts rest
       (AList.update oxygen
          \<lparr>accepting = dict_get acceptor_counts oxygen 0,
           donating = dict_get donor_counts oxygen 0\<rparr>
          oxygen_bond_counts)"

text \<open>The decimal form of a natural number, as the f-string prints it.\<close>

fun str_nat :: "nat \<Rightarrow> string" where
  "str_nat n =
     (if n < 10 then [char_of (48 + n)]
      else str_nat (n div 10) @ [char_of (48 + n mod 10)])"

declare str_nat.simps [simp del]

text \<open>The loop \<^verbatim>\<open>for oxygen, counts in oxygen_bond_counts.items()\<close>.\<close>

fun type_loop :: "(int \<times> counts) list \<Rightarrow> (string \<times> nat) list \<Rightarrow> (string \<times> nat) list" where
  "type_loop [] type_counts = type_counts"
| "type_loop ((oxygen, cnts) # rest) type_counts =
     (let bond_type = ''A'' @ str_nat (accepting cnts) @ ''D'' @ str_nat (donating cnts)
      in type_loop rest (incr bond_type type_counts))"

text \<open>
  The comprehension \<^verbatim>\<open>{bond_type: (count / total_oxygens) * 100 for ...}\<close>: one division
  for each entry of \<open>type_counts\<close>, and none when there is no entry.
\<close>

fun percent_loop ::
  "nat \<Rightarrow> (string \<times> nat) list \<Rightarrow> (string \<times> real) list \<Rightarrow> error + (string \<times> real) list" where
  "percent_loop total_oxygens [] percentages = Inr percentages"
| "percent_loop total_oxygens ((bond_type, count) # rest) percentages =
     (case truediv (int count) (int total_oxygens) of
        Inl e \<Rightarrow> Inl e
      | Inr q \<Rightarrow> percent_loop total_oxygens rest (AList.update bond_type (q * 100) percentages))"

definition analyze_bond_counts ::
  "hbond list \<Rightarrow> error + (int \<times> counts) list \<times> (string \<times> nat) list \<times> (string \<times> real) list" where
  "analyze_bond_counts hbonds =
     (case tally_loop hbonds [] [] of
        (acceptor_counts, donor_counts) \<Rightarrow>
          let all_oxygens = key_union acceptor_counts donor_counts;
              oxygen_bond_counts = oxygen_loop acceptor_counts donor_counts all_oxygens [];
              type_counts = type_loop oxygen_bond_counts [];
              total_oxygens = length oxygen_bond_counts
          in case percent_loop total_oxygens type_counts [] of
               Inl e \<Rightarrow> Inl e
             | Inr percentages \<Rightarrow> Inr (oxygen_bond_counts, type_counts, percentages))"

subsection \<open>\<^verbatim>\<open>main\<close>\<close>

record result =
  average_hbonds :: real
  oxygen_bond_counts :: "(int \<times> counts) list"
  type_counts :: "(string \<times> nat) list"
  percentages :: "(string \<times> real) list"

text \<open>
  \<open>main\<close> takes the structure reader as a parameter. The decorator \<^verbatim>\<open>@persist\<close> caches
  the result by the argument and is not modelled: every function here is a pure function
  of its arguments.
\<close>

definition main :: "('p \<Rightarrow> error + atoms) \<Rightarrow> 'p \<Rightarrow> error + result" where
  "main ase_io_read file_path =
     (case ase_io_read file_path of
        Inl e \<Rightarrow> Inl e
      | Inr atoms \<Rightarrow>
          (case build_water_molecules atoms of
             Inl e \<Rightarrow> Inl e
           | Inr water_mols \<Rightarrow>
               let hbonds = find_hydrogen_bonds_default atoms water_mols
               in (case calculate_average_hbonds hbonds of
                     Inl e \<Rightarrow> Inl e
                   | Inr avg_hbonds \<Rightarrow>
                       (case analyze_bond_counts hbonds of
                          Inl e \<Rightarrow> Inl e
                        | Inr (obc, tc, pct) \<Rightarrow>
                            Inr \<lparr>average_hbonds = avg_hbonds,
                                 oxygen_bond_counts = obc,
                                 type_counts = tc,
                                 percentages = pct\<rparr>))))"


section \<open>Specification-side notions and sample configurations\<close>

text \<open>
  The two assertions of \<open>build_water_molecules\<close> for the triplet \<open>{3i, 3i+1, 3i+2}\<close>: both
  O-H distances are below 1.5.
\<close>

definition triplet_ok :: "atoms \<Rightarrow> nat \<Rightarrow> bool" where
  "triplet_ok atoms i \<longleftrightarrow>
     get_distance atoms (3 * int i) (3 * int i + 1) False < 1.5 \<and>
     get_distance atoms (3 * int i) (3 * int i + 2) False < 1.5"

text \<open>Molecule \<open>i\<close> of the consecutive grouping: oxygen \<open>3i\<close>, hydrogens \<open>3i+1\<close> and \<open>3i+2\<close>.\<close>

definition molecule :: "nat \<Rightarrow> water" where
  "molecule i = \<lparr>O_index = 3 * int i, H_indices = [3 * int i + 1, 3 * int i + 2]\<rparr>"

text \<open>The atom indices that appear in some molecule of a list.\<close>

definition owned_atoms :: "water list \<Rightarrow> int set" where
  "owned_atoms water_mols = (\<Union>m\<in>set water_mols. insert (O_index m) (set (H_indices m)))"

text \<open>
  The bond list as the specification describes it: donors in list order, for each donor the
  acceptors in list order, for each such pair the donor's hydrogens in list order.
\<close>

definition hbonds_in_iteration_order :: "atoms \<Rightarrow> water list \<Rightarrow> real \<Rightarrow> real \<Rightarrow> hbond list" where
  "hbonds_in_iteration_order atoms water_mols distance_cutoff angle_cutoff =
     [(O_index (water_mols ! j), O_index (water_mols ! i), h).
        i \<leftarrow> [0..<length water_mols],
        j \<leftarrow> [0..<length water_mols],
        i \<noteq> j,
        get_distance atoms (O_index (water_mols ! i)) (O_index (water_mols ! j)) True
          < distance_cutoff,
        h \<leftarrow> H_indices (water_mols ! i),
        get_angle atoms (O_index (water_mols ! j)) (O_index (water_mols ! i)) h True
          < angle_cutoff]"

text \<open>The geometric test on the oxygens of a donor and an acceptor and a hydrogen.\<close>

definition hbond_criterion :: "atoms \<Rightarrow> real \<Rightarrow> real \<Rightarrow> int \<Rightarrow> int \<Rightarrow> int \<Rightarrow> bool" where
  "hbond_criterion atoms distance_cutoff angle_cutoff acceptor_O donor_O h \<longleftrightarrow>
     get_distance atoms donor_O acceptor_O True < distance_cutoff \<and>
     get_angle atoms acceptor_O donor_O h True < angle_cutoff"

text \<open>The oxygens that appear in a bond list, as acceptor or as donor.\<close>

definition distinct_oxygens :: "hbond list \<Rightarrow> int set" where
  "distinct_oxygens hbonds = fst ` set hbonds \<union> (fst \<circ> snd) ` set hbonds"

text \<open>Every index of every bond (acceptor, donor, hydrogen) fits a signed 64-bit integer.\<close>

definition int64_indices :: "hbond list \<Rightarrow> bool" where
  "int64_indices hbonds = list_all (\<lambda>(a, d, h). in_int64 a \<and> in_int64 d \<and> in_int64 h) hbonds"

text \<open>
  Two bonds whose acceptor indices are \<open>2^63\<close> and \<open>2^63 + 1\<close>: three distinct oxygens, of
  which the two large ones become the same double.
\<close>

definition huge_hbonds :: "hbond list" where
  "huge_hbonds = [(9223372036854775808, 0, 1), (9223372036854775809, 0, 2)]"

text \<open>
  The first result of \<open>analyze_bond_counts\<close> on its own: the tally followed by the loop over
  the oxygens.
\<close>

definition classify :: "hbond list \<Rightarrow> (int \<times> counts) list" where
  "classify hbonds =
     (case tally_loop hbonds [] [] of
        (acceptor_counts, donor_counts) \<Rightarrow>
          oxygen_loop acceptor_counts donor_counts
            (key_union acceptor_counts donor_counts) [])"

text \<open>
  A chain of four molecules (twelve atoms). Every O-H distance inside a molecule is 1; under
  the minimum-image convention the oxygens 0 and 3 are 2.8 apart and every other pair 6; the
  angle 3-0-1 is 10 degrees and every other angle 100. So molecule 0 donates its first
  hydrogen to molecule 1 and no other pair qualifies.
\<close>

definition chain_atoms :: atoms where
  "chain_atoms =
     \<lparr>len_atoms = 12,
      get_distance = (\<lambda>a0 a1 mic.
        if mic then (if (a0 = 0 \<and> a1 = 3) \<or> (a0 = 3 \<and> a1 = 0) then 2.8 else 6) else 1),
      get_angle = (\<lambda>a1 a2 a3 mic. if a1 = 3 \<and> a2 = 0 \<and> a3 = 1 then 10 else 100)\<rparr>"

definition chain_mols :: "water list" where
  "chain_mols = [molecule 0, molecule 1, molecule 2, molecule 3]"

text \<open>The chain with all oxygens exactly 3.5 apart, and the chain with all angles exactly 30.\<close>

definition distance_edge_atoms :: atoms where
  "distance_edge_atoms = chain_atoms\<lparr>get_distance := (\<lambda>a0 a1 mic. if mic then 3.5 else 1)\<rparr>"

definition angle_edge_atoms :: atoms where
  "angle_edge_atoms = chain_atoms\<lparr>get_angle := (\<lambda>a1 a2 a3 mic. 30)\<rparr>"

text \<open>The chain with the second hydrogen of molecule 1 exactly 1.5 from its oxygen.\<close>

definition stretched_atoms :: atoms where
  "stretched_atoms =
     chain_atoms\<lparr>get_distance := (\<lambda>a0 a1 mic. if a0 = 3 \<and> a1 = 5 then 1.5 else 1)\<rparr>"

text \<open>The first eight atoms of the chain: two molecules and two trailing atoms.\<close>

definition trailing_atoms :: atoms where
  "trailing_atoms = chain_atoms\<lparr>len_atoms := 8\<rparr>"

text \<open>The first three atoms of the chain: one molecule.\<close>

definition single_atoms :: atoms where
  "single_atoms = chain_atoms\<lparr>len_atoms := 3\<rparr>"

section \<open>The molecule builder\<close>

lemma build_loop_ok:
  "\<forall>i\<in>set ns. triplet_ok atoms i \<Longrightarrow> build_loop atoms ns acc = Inr (acc @ map molecule ns)"
  by (induction ns arbitrary: acc) (auto simp: triplet_ok_def molecule_def Let_def)

lemma build_loop_fail:
  "\<exists>i\<in>set ns. \<not> triplet_ok atoms i \<Longrightarrow> build_loop atoms ns acc = Inl AssertionError"
  by (induction ns arbitrary: acc) (auto simp: triplet_ok_def Let_def)

lemma build_ok:
  "\<forall>i<len_atoms atoms div 3. triplet_ok atoms i \<Longrightarrow>
     build_water_molecules atoms = Inr (map molecule [0..<len_atoms atoms div 3])"
  by (simp add: build_water_molecules_def build_loop_ok)

lemma build_fail:
  "\<exists>i<len_atoms atoms div 3. \<not> triplet_ok atoms i \<Longrightarrow>
     build_water_molecules atoms = Inl AssertionError"
  by (auto simp: build_water_molecules_def intro!: build_loop_fail)

lemma build_Inr_grouping:
  assumes "build_water_molecules atoms = Inr water_mols"
  shows "water_mols = map molecule [0..<len_atoms atoms div 3]"
proof (cases "\<forall>i<len_atoms atoms div 3. triplet_ok atoms i")
  case True
  with assms show ?thesis by (simp add: build_ok)
next
  case False
  with assms show ?thesis by (simp add: build_fail)
qed

lemma owned_atoms_grouping: "owned_atoms (map molecule [0..<n]) = {k. 0 \<le> k \<and> k < 3 * int n}"
proof (induction n)
  case 0
  then show ?case by (simp add: owned_atoms_def)
next
  case (Suc n)
  have "owned_atoms (map molecule [0..<Suc n]) =
          owned_atoms (map molecule [0..<n]) \<union> {3 * int n, 3 * int n + 1, 3 * int n + 2}"
    by (auto simp: owned_atoms_def molecule_def)
  with Suc show ?case by auto
qed

lemma build_never_malformed: "build_water_molecules atoms \<noteq> Inl MalformedMoleculeError"
proof (cases "\<forall>i<len_atoms atoms div 3. triplet_ok atoms i")
  case True
  then show ?thesis by (simp add: build_ok)
next
  case False
  then show ?thesis by (simp add: build_fail)
qed

text \<open>
  Claim C3, as amended. With \<^verbatim>\<open>assert\<close> statements executed, whenever some consecutive
  triplet has an O-H distance that is not below 1.5, molecule construction fails with
  Python's \<open>AssertionError\<close>, and \<open>main\<close> returns that error and no result record. When both
  O-H distances of every triplet are below 1.5, construction succeeds. The builder never
  fails with a MalformedMoleculeError. This holds for every atom count, in particular for
  the multiples of three.
\<close>

theorem build_water_molecules_assertion:
  "((\<exists>i<len_atoms atoms div 3. \<not> triplet_ok atoms i) \<longrightarrow>
      build_water_molecules atoms = Inl AssertionError \<and>
      (ase_io_read file_path = Inr atoms \<longrightarrow> main ase_io_read file_path = Inl AssertionError))
   \<and> ((\<forall>i<len_atoms atoms div 3. triplet_ok atoms i) \<longrightarrow>
      (\<exists>water_mols. build_water_molecules atoms = Inr water_mols))
   \<and> build_water_molecules atoms \<noteq> Inl MalformedMoleculeError"
  using build_never_malformed[of atoms] by (auto simp: build_fail build_ok main_def)

theorem build_water_molecules_assertion_witness:
  "3 dvd len_atoms stretched_atoms
   \<and> \<not> triplet_ok stretched_atoms 1
   \<and> build_water_molecules stretched_atoms = Inl AssertionError
   \<and> main (\<lambda>_. Inr stretched_atoms) ''snapshot.xyz'' = Inl AssertionError
   \<and> triplet_ok chain_atoms 0 \<and> triplet_ok chain_atoms 1
   \<and> triplet_ok chain_atoms 2 \<and> triplet_ok chain_atoms 3
   \<and> (\<exists>water_mols. build_water_molecules chain_atoms = Inr water_mols)"
proof -
  have one: "\<not> triplet_ok stretched_atoms 1"
    by (simp add: stretched_atoms_def chain_atoms_def triplet_ok_def)
  have bad: "\<exists>i<len_atoms stretched_atoms div 3. \<not> triplet_ok stretched_atoms i"
    using one by (intro exI[of _ 1]) (simp add: stretched_atoms_def chain_atoms_def)
  have each: "triplet_ok chain_atoms i" for i
    by (simp add: chain_atoms_def triplet_ok_def)
  have good: "\<forall>i<len_atoms chain_atoms div 3. triplet_ok chain_atoms i"
    using each by simp
  have three: "3 dvd len_atoms stretched_atoms"
    by (simp add: stretched_atoms_def chain_atoms_def)
  show ?thesis
    using one bad each good three
      build_water_molecules_assertion
        [of stretched_atoms "\<lambda>_. Inr stretched_atoms" "''snapshot.xyz''"]
      build_water_molecules_assertion
        [of chain_atoms "\<lambda>_. Inr chain_atoms" "''snapshot.xyz''"]
    by simp
qed

text \<open>
  Claim C3, as the specification states it, fails: on twelve atoms (a multiple of three)
  whose second molecule has an O-H distance of exactly 1.5, the error of the builder is
  \<open>AssertionError\<close> and not MalformedMoleculeError.
\<close>

theorem build_water_molecules_error_counterexample:
  "3 dvd len_atoms stretched_atoms
   \<and> \<not> triplet_ok stretched_atoms 1
   \<and> build_water_molecules stretched_atoms = Inl AssertionError
   \<and> build_water_molecules stretched_atoms \<noteq> Inl MalformedMoleculeError"
proof -
  have one: "\<not> triplet_ok stretched_atoms 1"
    by (simp add: stretched_atoms_def chain_atoms_def triplet_ok_def)
  have "\<exists>i<len_atoms stretched_atoms div 3. \<not> triplet_ok stretched_atoms i"
    using one by (intro exI[of _ 1]) (simp add: stretched_atoms_def chain_atoms_def)
  then have "build_water_molecules stretched_atoms = Inl AssertionError"
    by (rule build_fail)
  moreover have "3 dvd len_atoms stretched_atoms"
    by (simp add: stretched_atoms_def chain_atoms_def)
  ultimately show ?thesis using one by simp
qed

text \<open>
  Claim C4. When both O-H distances of every triplet are below 1.5, \<open>build_water_molecules\<close>
  returns exactly \<open>N div 3\<close> molecules, molecule \<open>i\<close> being oxygen \<open>3i\<close> with hydrogens \<open>3i+1\<close>
  and \<open>3i+2\<close>. The atoms owned by the molecules are exactly those below \<open>3 * (N div 3)\<close>, so
  the trailing atoms of an \<open>N\<close> that is not a multiple of three appear in no molecule, and no
  error is raised for them.
\<close>

theorem build_water_molecules_grouping:
  assumes "\<forall>i<len_atoms atoms div 3. triplet_ok atoms i"
  shows "\<exists>water_mols. build_water_molecules atoms = Inr water_mols
     \<and> length water_mols = len_atoms atoms div 3
     \<and> (\<forall>i<len_atoms atoms div 3.
          water_mols ! i = \<lparr>O_index = 3 * int i, H_indices = [3 * int i + 1, 3 * int i + 2]\<rparr>)
     \<and> owned_atoms water_mols = {k. 0 \<le> k \<and> k < 3 * int (len_atoms atoms div 3)}
     \<and> (\<forall>k. 3 * (len_atoms atoms div 3) \<le> k \<and> k < len_atoms atoms \<longrightarrow>
          int k \<notin> owned_atoms water_mols)"
proof -
  let ?mols = "map molecule [0..<len_atoms atoms div 3]"
  have "build_water_molecules atoms = Inr ?mols"
    using assms by (rule build_ok)
  moreover have "length ?mols = len_atoms atoms div 3" by simp
  moreover have "\<forall>i<len_atoms atoms div 3.
      ?mols ! i = \<lparr>O_index = 3 * int i, H_indices = [3 * int i + 1, 3 * int i + 2]\<rparr>"
    by (simp add: molecule_def)
  moreover have "owned_atoms ?mols = {k. 0 \<le> k \<and> k < 3 * int (len_atoms atoms div 3)}"
    by (rule owned_atoms_grouping)
  moreover have "\<forall>k. 3 * (len_atoms atoms div 3) \<le> k \<and> k < len_atoms atoms \<longrightarrow>
      int k \<notin> owned_atoms ?mols"
    unfolding owned_atoms_grouping by auto
  ultimately show ?thesis by blast
qed

theorem build_water_molecules_grouping_witness:
  "triplet_ok trailing_atoms 0 \<and> triplet_ok trailing_atoms 1
   \<and> len_atoms trailing_atoms = 8
   \<and> build_water_molecules trailing_atoms =
       Inr [\<lparr>O_index = 0, H_indices = [1, 2]\<rparr>, \<lparr>O_index = 3, H_indices = [4, 5]\<rparr>]
   \<and> 6 \<notin> owned_atoms [\<lparr>O_index = 0, H_indices = [1, 2]\<rparr>, \<lparr>O_index = 3, H_indices = [4, 5]\<rparr>]
   \<and> 7 \<notin> owned_atoms [\<lparr>O_index = 0, H_indices = [1, 2]\<rparr>, \<lparr>O_index = 3, H_indices = [4, 5]\<rparr>]"
proof -
  have each: "triplet_ok trailing_atoms i" for i
    by (simp add: trailing_atoms_def chain_atoms_def triplet_ok_def)
  then have ok: "\<forall>i<len_atoms trailing_atoms div 3. triplet_ok trailing_atoms i"
    by simp
  have n: "len_atoms trailing_atoms div 3 = 2" "len_atoms trailing_atoms = 8"
    by (simp_all add: trailing_atoms_def chain_atoms_def)
  from build_water_molecules_grouping[OF ok]
  obtain water_mols where b: "build_water_molecules trailing_atoms = Inr water_mols"
    and l: "length water_mols = 2"
    and m: "\<forall>i<2. water_mols ! i =
              \<lparr>O_index = 3 * int i, H_indices = [3 * int i + 1, 3 * int i + 2]\<rparr>"
    and d: "\<forall>k. 6 \<le> k \<and> k < 8 \<longrightarrow> int k \<notin> owned_atoms water_mols"
    unfolding n by auto
  from m have "water_mols ! 0 = \<lparr>O_index = 0, H_indices = [1, 2]\<rparr>"
    "water_mols ! 1 = \<lparr>O_index = 3, H_indices = [4, 5]\<rparr>" by auto
  with l have w: "water_mols =
      [\<lparr>O_index = 0, H_indices = [1, 2]\<rparr>, \<lparr>O_index = 3, H_indices = [4, 5]\<rparr>]"
    by (intro nth_equalityI) (auto simp: less_Suc_eq numeral_2_eq_2)
  from d[rule_format, of 6] d[rule_format, of 7]
  have "6 \<notin> owned_atoms water_mols" "7 \<notin> owned_atoms water_mols" by simp_all
  with each n b w show ?thesis by simp
qed

section \<open>The hydrogen-bond detector\<close>

text \<open>Each loop appends to the list it is given; what it appends is a comprehension.\<close>

lemma hydrogen_loop_append:
  "hydrogen_loop atoms ac a d hs hbonds =
     hbonds @ [(a, d, h). h \<leftarrow> hs, get_angle atoms a d h True < ac]"
  by (induction hs arbitrary: hbonds) (simp_all add: Let_def)

lemma acceptor_loop_append:
  "acceptor_loop atoms dc ac i donor js hbonds =
     hbonds @ [(O_index acceptor, O_index donor, h).
        (j, acceptor) \<leftarrow> js, i \<noteq> j,
        get_distance atoms (O_index donor) (O_index acceptor) True < dc,
        h \<leftarrow> H_indices donor,
        get_angle atoms (O_index acceptor) (O_index donor) h True < ac]"
  by (induction js arbitrary: hbonds) (auto simp add: Let_def hydrogen_loop_append)

lemma donor_loop_append:
  "donor_loop atoms dc ac mols ds hbonds =
     hbonds @ [(O_index acceptor, O_index donor, h).
        (i, donor) \<leftarrow> ds,
        (j, acceptor) \<leftarrow> enumerate 0 mols, i \<noteq> j,
        get_distance atoms (O_index donor) (O_index acceptor) True < dc,
        h \<leftarrow> H_indices donor,
        get_angle atoms (O_index acceptor) (O_index donor) h True < ac]"
  by (induction ds arbitrary: hbonds) (auto simp add: acceptor_loop_append)

lemma enumerate_by_position: "enumerate 0 xs = map (\<lambda>i. (i, xs ! i)) [0..<length xs]"
  by (rule nth_equalityI) (simp_all add: nth_enumerate_eq)

lemma find_as_comprehension:
  "find_hydrogen_bonds atoms mols dc ac = hbonds_in_iteration_order atoms mols dc ac"
  unfolding find_hydrogen_bonds_def hbonds_in_iteration_order_def donor_loop_append
    enumerate_by_position
  by (simp add: comp_def)

lemma set_find:
  "set (find_hydrogen_bonds atoms mols dc ac) =
     {(O_index (mols ! j), O_index (mols ! i), h) | i j h.
        i < length mols \<and> j < length mols \<and> i \<noteq> j \<and> h \<in> set (H_indices (mols ! i)) \<and>
        hbond_criterion atoms dc ac (O_index (mols ! j)) (O_index (mols ! i)) h}"
  unfolding find_as_comprehension hbonds_in_iteration_order_def hbond_criterion_def
  apply (auto split: if_splits)
   apply blast
  subgoal for i j h
    by (rule bexI[of _ i], rule bexI[of _ j]) auto
  done

lemma emitted_meets_criterion:
  "(a, d, h) \<in> set (find_hydrogen_bonds atoms mols dc ac) \<Longrightarrow> hbond_criterion atoms dc ac a d h"
  unfolding set_find by auto

lemma find_single: "find_hydrogen_bonds atoms [m] dc ac = []"
  by (simp add: find_hydrogen_bonds_def)

lemma find_chain: "find_hydrogen_bonds chain_atoms chain_mols 3.5 30 = [(3, 0, 1)]"
  by (simp add: find_hydrogen_bonds_def chain_mols_def chain_atoms_def molecule_def)

lemma build_chain: "build_water_molecules chain_atoms = Inr chain_mols"
proof -
  have "\<forall>i<len_atoms chain_atoms div 3. triplet_ok chain_atoms i"
    by (simp add: chain_atoms_def triplet_ok_def)
  then have "build_water_molecules chain_atoms = Inr (map molecule [0..<len_atoms chain_atoms div 3])"
    by (rule build_ok)
  moreover have "[0..<len_atoms chain_atoms div 3] = [0, 1, 2, 3]"
    by (simp add: chain_atoms_def upt_rec)
  ultimately show ?thesis by (simp add: chain_mols_def)
qed

text \<open>
  Claim C1. For every ordered pair of distinct positions \<open>i\<close> (donor) and \<open>j\<close> (acceptor) of
  the molecule list and every hydrogen \<open>h\<close> of the donor, the bond (acceptor oxygen, donor
  oxygen, \<open>h\<close>) is in the result exactly when the minimum-image O-O distance is strictly
  below the distance cut-off and the angle acceptor-donor-\<open>h\<close> is strictly below the angle
  cut-off; so a pair at exactly either cut-off is excluded. Every emitted bond comes from a
  pair of different positions: a molecule paired with itself produces nothing, and when the
  oxygens of the list are distinct no bond has equal acceptor and donor. The defaults of the
  cut-offs are 3.5 and 30.
\<close>

theorem find_hydrogen_bonds_criterion:
  "(\<forall>i<length mols. \<forall>j<length mols. \<forall>h\<in>set (H_indices (mols ! i)). i \<noteq> j \<longrightarrow>
      ((O_index (mols ! j), O_index (mols ! i), h) \<in> set (find_hydrogen_bonds atoms mols dc ac)
       \<longleftrightarrow>
       get_distance atoms (O_index (mols ! i)) (O_index (mols ! j)) True < dc \<and>
       get_angle atoms (O_index (mols ! j)) (O_index (mols ! i)) h True < ac))
   \<and> (\<forall>b\<in>set (find_hydrogen_bonds atoms mols dc ac).
        \<exists>i<length mols. \<exists>j<length mols. i \<noteq> j \<and>
          (\<exists>h\<in>set (H_indices (mols ! i)). b = (O_index (mols ! j), O_index (mols ! i), h)))
   \<and> (distinct (map O_index mols) \<longrightarrow>
        (\<forall>(a, d, h)\<in>set (find_hydrogen_bonds atoms mols dc ac). a \<noteq> d))
   \<and> find_hydrogen_bonds_default atoms mols = find_hydrogen_bonds atoms mols 3.5 30"
proof (intro conjI allI impI ballI)
  fix i j h
  assume "i < length mols" "j < length mols" "h \<in> set (H_indices (mols ! i))" "i \<noteq> j"
  then show "(O_index (mols ! j), O_index (mols ! i), h) \<in> set (find_hydrogen_bonds atoms mols dc ac)
       \<longleftrightarrow>
       get_distance atoms (O_index (mols ! i)) (O_index (mols ! j)) True < dc \<and>
       get_angle atoms (O_index (mols ! j)) (O_index (mols ! i)) h True < ac"
    using emitted_meets_criterion[of "O_index (mols ! j)" "O_index (mols ! i)" h atoms mols dc ac]
    by (auto simp: set_find hbond_criterion_def)
next
  fix b
  assume "b \<in> set (find_hydrogen_bonds atoms mols dc ac)"
  then show "\<exists>i<length mols. \<exists>j<length mols. i \<noteq> j \<and>
          (\<exists>h\<in>set (H_indices (mols ! i)). b = (O_index (mols ! j), O_index (mols ! i), h))"
    unfolding set_find by blast
next
  fix b
  assume d: "distinct (map O_index mols)"
    and b: "b \<in> set (find_hydrogen_bonds atoms mols dc ac)"
  from b obtain i j h where ij: "i < length mols" "j < length mols" "i \<noteq> j"
    and b_eq: "b = (O_index (mols ! j), O_index (mols ! i), h)"
    unfolding set_find by blast
  from ij d have "O_index (mols ! j) \<noteq> O_index (mols ! i)"
    by (metis length_map nth_eq_iff_index_eq nth_map)
  with b_eq show "case b of (a, d, h) \<Rightarrow> a \<noteq> d" by simp
next
  show "find_hydrogen_bonds_default atoms mols = find_hydrogen_bonds atoms mols 3.5 30"
    by (simp add: find_hydrogen_bonds_default_def)
qed

theorem find_hydrogen_bonds_criterion_witness:
  "(3, 0, 1) \<in> set (find_hydrogen_bonds chain_atoms chain_mols 3.5 30)
   \<and> get_distance distance_edge_atoms 0 3 True = 3.5
   \<and> (3, 0, 1) \<notin> set (find_hydrogen_bonds distance_edge_atoms chain_mols 3.5 30)
   \<and> get_angle angle_edge_atoms 3 0 1 True = 30
   \<and> (3, 0, 1) \<notin> set (find_hydrogen_bonds angle_edge_atoms chain_mols 3.5 30)"
proof -
  have pos: "(0::nat) < length chain_mols" "(1::nat) < length chain_mols"
    "(1::int) \<in> set (H_indices (chain_mols ! 0))" "(0::nat) \<noteq> 1"
    "O_index (chain_mols ! 0) = 0" "O_index (chain_mols ! 1) = 3"
    by (simp_all add: chain_mols_def molecule_def)
  have inst: "(O_index (chain_mols ! 1), O_index (chain_mols ! 0), 1)
        \<in> set (find_hydrogen_bonds atoms chain_mols 3.5 30) \<longleftrightarrow>
      get_distance atoms (O_index (chain_mols ! 0)) (O_index (chain_mols ! 1)) True < 3.5 \<and>
      get_angle atoms (O_index (chain_mols ! 1)) (O_index (chain_mols ! 0)) 1 True < 30"
    for atoms
    using find_hydrogen_bonds_criterion[of chain_mols atoms "3.5" 30] pos(1-4) by blast
  show ?thesis
    using inst[of chain_atoms] inst[of distance_edge_atoms] inst[of angle_edge_atoms]
    unfolding pos(5,6)
    by (simp add: chain_atoms_def distance_edge_atoms_def angle_edge_atoms_def)
qed

text \<open>
  Claim C7. The result is the bond list in iteration order: the outer loop over the donors,
  inside it the loop over the acceptors, innermost the loop over the donor's hydrogens.
  Nothing is symmetrised and nothing is deduplicated: there is a configuration where a bond
  (A, D, H) is emitted and no bond (D, A, H') is, and a molecule list whose result repeats a
  bond.
\<close>

theorem find_hydrogen_bonds_iteration_order:
  "find_hydrogen_bonds atoms water_mols distance_cutoff angle_cutoff =
     hbonds_in_iteration_order atoms water_mols distance_cutoff angle_cutoff
   \<and> (\<exists>atoms' mols' a d h.
        (a, d, h) \<in> set (find_hydrogen_bonds_default atoms' mols') \<and>
        (\<forall>h'. (d, a, h') \<notin> set (find_hydrogen_bonds_default atoms' mols')))
   \<and> (\<exists>atoms' mols'. \<not> distinct (find_hydrogen_bonds_default atoms' mols'))"
proof (intro conjI)
  show "find_hydrogen_bonds atoms water_mols distance_cutoff angle_cutoff =
     hbonds_in_iteration_order atoms water_mols distance_cutoff angle_cutoff"
    by (rule find_as_comprehension)
next
  have "(3, 0, 1) \<in> set (find_hydrogen_bonds_default chain_atoms chain_mols) \<and>
        (\<forall>h'. (0, 3, h') \<notin> set (find_hydrogen_bonds_default chain_atoms chain_mols))"
    unfolding find_hydrogen_bonds_default_def find_chain by simp
  then show "\<exists>atoms' mols' a d h.
        (a, d, h) \<in> set (find_hydrogen_bonds_default atoms' mols') \<and>
        (\<forall>h'. (d, a, h') \<notin> set (find_hydrogen_bonds_default atoms' mols'))"
    by blast
next
  have "find_hydrogen_bonds_default chain_atoms [molecule 0, molecule 1, molecule 0] =
          [(3, 0, 1), (3, 0, 1)]"
    by (simp add: find_hydrogen_bonds_default_def find_hydrogen_bonds_def chain_atoms_def
        molecule_def)
  then have "\<not> distinct (find_hydrogen_bonds_default chain_atoms [molecule 0, molecule 1, molecule 0])"
    by simp
  then show "\<exists>atoms' mols'. \<not> distinct (find_hydrogen_bonds_default atoms' mols')"
    by blast
qed

theorem find_hydrogen_bonds_iteration_order_witness:
  "hbonds_in_iteration_order chain_atoms [molecule 1, molecule 0, molecule 1] 3.5 30 =
     [(3, 0, 1), (3, 0, 1)]
   \<and> find_hydrogen_bonds chain_atoms [molecule 1, molecule 0, molecule 1] 3.5 30 =
     [(3, 0, 1), (3, 0, 1)]"
proof -
  have "find_hydrogen_bonds chain_atoms [molecule 1, molecule 0, molecule 1] 3.5 30 =
     [(3, 0, 1), (3, 0, 1)]"
    by (simp add: find_hydrogen_bonds_def chain_atoms_def molecule_def)
  with find_hydrogen_bonds_iteration_order
    [of chain_atoms "[molecule 1, molecule 0, molecule 1]" "3.5" 30]
  show ?thesis by simp
qed

text \<open>
  Claim C9. On a molecule list that \<open>build_water_molecules\<close> returned, every emitted bond
  (acceptor oxygen, donor oxygen, \<open>h\<close>) has both oxygens divisible by three and different
  from each other, and \<open>h\<close> is the donor oxygen plus one or plus two.
\<close>

theorem find_hydrogen_bonds_well_formed:
  assumes "build_water_molecules atoms = Inr water_mols"
  shows "\<forall>(acceptor_O, donor_O, h)\<in>set (find_hydrogen_bonds atoms water_mols dc ac).
           3 dvd acceptor_O \<and> 3 dvd donor_O \<and> acceptor_O \<noteq> donor_O \<and>
           (h = donor_O + 1 \<or> h = donor_O + 2)"
proof -
  have "water_mols = map molecule [0..<len_atoms atoms div 3]"
    using assms by (rule build_Inr_grouping)
  then show ?thesis
    unfolding set_find by (auto simp: molecule_def)
qed

theorem find_hydrogen_bonds_well_formed_witness:
  "build_water_molecules chain_atoms = Inr chain_mols
   \<and> find_hydrogen_bonds chain_atoms chain_mols 3.5 30 = [(3, 0, 1)]
   \<and> (3::int) dvd 3 \<and> (3::int) dvd 0 \<and> (3::int) \<noteq> 0 \<and> (1::int) = 0 + 1"
  using find_hydrogen_bonds_well_formed[OF build_chain, of "3.5" 30] build_chain find_chain
  by simp

section \<open>Population statistics\<close>

lemma length_np_unique: "length (np_unique xs) = card (set xs)"
  by (simp add: np_unique_def length_remdups_card_conv)

lemma set_oxygen_columns:
  "set (map fst hbonds @ map (fst \<circ> snd) hbonds) = distinct_oxygens hbonds"
  by (simp add: distinct_oxygens_def)

lemma distinct_oxygens_pos: "hbonds \<noteq> [] \<Longrightarrow> 0 < card (distinct_oxygens hbonds)"
  by (cases hbonds) (auto simp: distinct_oxygens_def card_gt_0_iff)

lemma distinct_oxygens_le: "card (distinct_oxygens hbonds) \<le> 2 * length hbonds"
proof -
  have "card (set (map fst hbonds @ map (fst \<circ> snd) hbonds))
          \<le> length (map fst hbonds @ map (fst \<circ> snd) hbonds)"
    by (rule card_length)
  then show ?thesis unfolding set_oxygen_columns by simp
qed

text \<open>A list whose entries all fit a signed 64-bit integer is stored as it is.\<close>

lemma result_dtype_int64: "xs \<noteq> [] \<Longrightarrow> list_all in_int64 xs \<Longrightarrow> result_dtype xs = Int64"
  by (induction xs rule: result_dtype.induct) (auto simp: scalar_dtype_def)

lemma entries_int64:
  "int64_indices hbonds \<Longrightarrow> list_all in_int64 (concat (map (\<lambda>(a, d, h). [a, d, h]) hbonds))"
  by (induction hbonds) (auto simp: int64_indices_def)

lemma np_array_int64:
  assumes "int64_indices hbonds"
  shows "np_array hbonds = hbonds"
proof (cases hbonds)
  case Nil
  then show ?thesis by (simp add: np_array_def)
next
  case (Cons b bs)
  then have "concat (map (\<lambda>(a, d, h). [a, d, h]) hbonds) \<noteq> []"
    by (cases b) simp
  with entries_int64[OF assms]
  have "result_dtype (concat (map (\<lambda>(a, d, h). [a, d, h]) hbonds)) = Int64"
    by (intro result_dtype_int64)
  then show ?thesis by (simp add: np_array_def)
qed

lemma length_np_array: "length (np_array hbonds) = length hbonds"
  by (simp add: np_array_def)

text \<open>In general the divisor is the number of distinct oxygens as the array stores them.\<close>

lemma average_stored:
  assumes ne: "hbonds \<noteq> []"
  shows "calculate_average_hbonds hbonds =
     Inr (2 * real (length hbonds) / real (card (distinct_oxygens (np_array hbonds))))"
proof -
  have l: "length (np_unique (map fst (np_array hbonds) @ map (fst \<circ> snd) (np_array hbonds))) =
      card (distinct_oxygens (np_array hbonds))"
    unfolding length_np_unique set_oxygen_columns ..
  from ne have "np_array hbonds \<noteq> []"
    using length_np_array[of hbonds] by (metis length_0_conv)
  from ne distinct_oxygens_pos[OF this] show ?thesis
    unfolding calculate_average_hbonds_def Let_def l truediv_def by simp
qed

lemma average_nonempty:
  assumes "hbonds \<noteq> []" and "int64_indices hbonds"
  shows "calculate_average_hbonds hbonds =
     Inr (2 * real (length hbonds) / real (card (distinct_oxygens hbonds)))"
  using average_stored[OF assms(1)] np_array_int64[OF assms(2)] by simp

lemma average_empty: "calculate_average_hbonds [] = Inr 0"
  by (simp add: calculate_average_hbonds_def)

text \<open>
  Claim C2, as amended. On a non-empty bond list all of whose indices fit a signed 64-bit
  integer (as every index of an atom array does) \<open>calculate_average_hbonds\<close> returns twice
  the number of bonds divided by the number of distinct oxygens that appear as acceptor or
  donor, and the division does not fail; on the empty list it returns 0 and performs no
  division.
\<close>

theorem calculate_average_hbonds_formula:
  "calculate_average_hbonds [] = Inr 0 \<and>
   (hbonds \<noteq> [] \<and> int64_indices hbonds \<longrightarrow>
      calculate_average_hbonds hbonds =
        Inr (2 * real (length hbonds) / real (card (distinct_oxygens hbonds))))"
  by (simp add: average_nonempty average_empty)

theorem calculate_average_hbonds_formula_witness:
  "[(3, 0, 1), (6, 3, 4), (0, 6, 7)] \<noteq> ([] :: hbond list) \<and>
   int64_indices [(3, 0, 1), (6, 3, 4), (0, 6, 7)] \<and>
   card (distinct_oxygens [(3, 0, 1), (6, 3, 4), (0, 6, 7)]) = 3 \<and>
   calculate_average_hbonds [(3, 0, 1), (6, 3, 4), (0, 6, 7)] = Inr 2"
proof -
  have "distinct_oxygens [(3, 0, 1), (6, 3, 4), (0, 6, 7)] = {0, 3, 6}"
    by (auto simp: distinct_oxygens_def)
  then have c: "card (distinct_oxygens [(3, 0, 1), (6, 3, 4), (0, 6, 7)]) = 3"
    by simp
  have i: "int64_indices [(3, 0, 1), (6, 3, 4), (0, 6, 7)]"
    by (simp add: int64_indices_def in_int64_def)
  from calculate_average_hbonds_formula[of "[(3, 0, 1), (6, 3, 4), (0, 6, 7)]"] i
  show ?thesis unfolding c by simp
qed

text \<open>The conversion to doubles, evaluated at the indices of the sample with large indices.\<close>

lemma bit_length_le: "n < 2 ^ k \<Longrightarrow> bit_length n \<le> k"
proof (induction k arbitrary: n)
  case 0
  then show ?case by (simp add: bit_length.simps)
next
  case (Suc k)
  from Suc.prems have "n div 2 < 2 ^ k" by simp
  then have "bit_length (n div 2) \<le> k" by (rule Suc.IH)
  then show ?case by (subst bit_length.simps) simp
qed

lemma bit_length_eq: "2 ^ k \<le> n \<Longrightarrow> n < 2 ^ Suc k \<Longrightarrow> bit_length n = Suc k"
proof (induction k arbitrary: n)
  case 0
  then have "n = 1" by simp
  then show ?case by (simp add: bit_length.simps)
next
  case (Suc k)
  from Suc.prems have "2 ^ k \<le> n div 2" "n div 2 < 2 ^ Suc k" by simp_all
  then have "bit_length (n div 2) = Suc k" by (rule Suc.IH)
  moreover from Suc.prems have "n \<noteq> 0" by auto
  ultimately show ?case by (subst bit_length.simps) simp
qed

lemma float64_small: "0 \<le> x \<Longrightarrow> x < 2 ^ 53 \<Longrightarrow> float64 x = x"
proof -
  assume x: "0 \<le> x" "x < 2 ^ 53"
  then have "nat x < 2 ^ 53" by (simp add: nat_less_iff)
  then have "bit_length (nat x) \<le> 53" by (rule bit_length_le)
  then have "round_to_float64 (nat x) = nat x"
    by (simp add: round_to_float64_def Let_def)
  with x show ?thesis by (simp add: float64_def)
qed

lemma float64_two_63: "float64 9223372036854775808 = 9223372036854775808"
proof -
  have "bit_length 9223372036854775808 = Suc 63"
    by (rule bit_length_eq) simp_all
  then have "round_to_float64 9223372036854775808 = 9223372036854775808"
    by (simp add: round_to_float64_def Let_def)
  then show ?thesis by (simp add: float64_def)
qed

lemma float64_two_63_plus_1: "float64 9223372036854775809 = 9223372036854775808"
proof -
  have "bit_length 9223372036854775809 = Suc 63"
    by (rule bit_length_eq) simp_all
  then have "round_to_float64 9223372036854775809 = 9223372036854775808"
    by (simp add: round_to_float64_def Let_def)
  then show ?thesis by (simp add: float64_def)
qed

lemma np_array_huge:
  "np_array huge_hbonds = [(9223372036854775808, 0, 1), (9223372036854775808, 0, 2)]"
proof -
  have "result_dtype (concat (map (\<lambda>(a, d, h). [a, d, h]) huge_hbonds)) = Float64"
    by (simp add: huge_hbonds_def scalar_dtype_def in_int64_def)
  then show ?thesis
    by (simp add: np_array_def huge_hbonds_def float64_two_63 float64_two_63_plus_1 float64_small)
qed

lemma average_huge: "calculate_average_hbonds huge_hbonds = Inr 2"
proof -
  have "distinct_oxygens (np_array huge_hbonds) = {0, 9223372036854775808}"
    unfolding np_array_huge by (auto simp: distinct_oxygens_def)
  then have "card (distinct_oxygens (np_array huge_hbonds)) = 2" by simp
  moreover have "huge_hbonds \<noteq> []" "length huge_hbonds = 2"
    by (simp_all add: huge_hbonds_def)
  ultimately show ?thesis using average_stored[of huge_hbonds] by simp
qed

text \<open>
  Claim C2, as the specification states it for every non-empty bond list, fails: the bonds
  \<open>(2^63, 0, 1)\<close> and \<open>(2^63 + 1, 0, 2)\<close> have three distinct oxygens, so the stated value
  is 4/3, but the array is a float array in which the two large indices are the same
  number, and the function returns 2.
\<close>

theorem calculate_average_hbonds_counterexample:
  "huge_hbonds \<noteq> []
   \<and> length huge_hbonds = 2
   \<and> card (distinct_oxygens huge_hbonds) = 3
   \<and> calculate_average_hbonds huge_hbonds = Inr 2
   \<and> calculate_average_hbonds huge_hbonds \<noteq>
       Inr (2 * real (length huge_hbonds) / real (card (distinct_oxygens huge_hbonds)))"
proof -
  have "distinct_oxygens huge_hbonds = {0, 9223372036854775808, 9223372036854775809}"
    by (auto simp: distinct_oxygens_def huge_hbonds_def)
  then have c: "card (distinct_oxygens huge_hbonds) = 3"
    by simp
  have v: "calculate_average_hbonds huge_hbonds = Inr 2"
    by (rule average_huge)
  have l: "huge_hbonds \<noteq> []" "length huge_hbonds = 2"
    by (simp_all add: huge_hbonds_def)
  show ?thesis unfolding v c using l by simp
qed

text \<open>
  Claim C10. On a non-empty bond list \<open>calculate_average_hbonds\<close> returns a value that is at
  least 1: the number of distinct oxygens is at most twice the number of bonds.
\<close>

theorem calculate_average_hbonds_ge_one:
  assumes "hbonds \<noteq> []"
  shows "\<exists>avg. calculate_average_hbonds hbonds = Inr avg \<and> 1 \<le> avg \<and>
     card (distinct_oxygens hbonds) \<le> 2 * length hbonds"
proof -
  let ?k = "card (distinct_oxygens (np_array hbonds))"
  from assms have "np_array hbonds \<noteq> []"
    using length_np_array[of hbonds] by (metis length_0_conv)
  then have pos: "0 < real ?k" using distinct_oxygens_pos by simp
  have "?k \<le> 2 * length hbonds"
    using distinct_oxygens_le[of "np_array hbonds"] by (simp add: length_np_array)
  then have "real ?k \<le> 2 * real (length hbonds)"
    by (metis of_nat_le_iff of_nat_mult of_nat_numeral)
  with pos have "1 \<le> 2 * real (length hbonds) / real ?k"
    by (simp add: le_divide_eq)
  with average_stored[OF assms] distinct_oxygens_le[of hbonds] show ?thesis by simp
qed

theorem calculate_average_hbonds_ge_one_witness:
  "[(3, 0, 1)] \<noteq> ([] :: hbond list) \<and>
   (\<exists>avg. calculate_average_hbonds [(3, 0, 1)] = Inr avg \<and> 1 \<le> avg)"
  using calculate_average_hbonds_ge_one[of "[(3, 0, 1)]"] by auto

section \<open>The bond-role classifier\<close>

lemma sum_update:
  "sum_list (map snd (AList.update k v d)) + dict_get d k 0 = sum_list (map snd d) + (v::nat)"
  by (induction d) (auto simp: dict_get_def)

lemma sum_incr: "sum_list (map snd (incr k d)) = sum_list (map snd d) + 1"
  using sum_update[of k "dict_get d k 0 + 1" d] by (simp add: incr_def)

lemma distinct_incr: "distinct (map fst d) \<Longrightarrow> distinct (map fst (incr k d))"
  by (simp add: incr_def distinct_update)

lemma sum_type_loop:
  "sum_list (map snd (type_loop obc tc)) = sum_list (map snd tc) + length obc"
  by (induction obc tc rule: type_loop.induct) (simp_all add: sum_incr Let_def)

lemma distinct_type_loop:
  "distinct (map fst tc) \<Longrightarrow> distinct (map fst (type_loop obc tc))"
  by (induction obc tc rule: type_loop.induct) (simp_all add: distinct_incr Let_def)

lemma keys_oxygen_loop:
  "distinct oxs \<Longrightarrow> set oxs \<inter> fst ` set obc = {} \<Longrightarrow>
     map fst (oxygen_loop a d oxs obc) = map fst obc @ oxs"
  by (induction oxs arbitrary: obc) (auto simp: update_keys dom_update)

text \<open>With a non-zero divisor no division of the comprehension fails.\<close>

lemma percent_loop_append:
  "n_ox \<noteq> 0 \<Longrightarrow> distinct (map fst tc) \<Longrightarrow> set (map fst tc) \<inter> fst ` set pct = {} \<Longrightarrow>
     percent_loop n_ox tc pct =
       Inr (pct @ map (\<lambda>(bond_type, count). (bond_type, real count / real n_ox * 100)) tc)"
proof (induction tc arbitrary: pct)
  case Nil
  then show ?case by simp
next
  case (Cons p tc)
  obtain k c where p: "p = (k, c)" by (cases p)
  from Cons.prems have fresh: "k \<notin> fst ` set pct" by (auto simp: p)
  then have u: "AList.update k v pct = pct @ [(k, v)]" for v :: real
    by (induction pct) auto
  from Cons.prems
  have "set (map fst tc) \<inter> fst ` set (pct @ [(k, real c / real n_ox * 100)]) = {}"
    by (auto simp: p)
  with Cons.IH[of "pct @ [(k, real c / real n_ox * 100)]"] Cons.prems
  show ?case by (simp add: p truediv_def u)
qed

lemma keys_percent:
  "map fst (map (\<lambda>(bond_type, count). (bond_type, f count)) tc) = map fst tc"
  by (induction tc) auto

lemma sum_percent:
  "sum_list (map snd (map (\<lambda>(bond_type, count). (bond_type, real count / t * 100)) tc)) =
     real (sum_list (map snd tc)) / t * 100"
  by (induction tc) (auto simp: add_divide_distrib distrib_right)

lemma distinct_classify: "distinct (map fst (classify hbonds))"
  by (auto simp: classify_def keys_oxygen_loop key_union_def split: prod.splits)

text \<open>
  \<open>analyze_bond_counts\<close> never fails: when no oxygen was counted the comprehension has no
  entry to divide, and otherwise the divisor is not zero.
\<close>

lemma analyze_total:
  "analyze_bond_counts hbonds =
     Inr (classify hbonds, type_loop (classify hbonds) [],
          map (\<lambda>(bond_type, count).
                 (bond_type, real count / real (length (classify hbonds)) * 100))
            (type_loop (classify hbonds) []))"
proof (cases "classify hbonds = []")
  case True
  then show ?thesis
    by (simp add: analyze_bond_counts_def classify_def Let_def split: prod.splits)
next
  case False
  then have "length (classify hbonds) \<noteq> 0" by simp
  then have "percent_loop (length (classify hbonds)) (type_loop (classify hbonds) []) [] =
     Inr ([] @ map (\<lambda>(bond_type, count).
                     (bond_type, real count / real (length (classify hbonds)) * 100))
            (type_loop (classify hbonds) []))"
    by (intro percent_loop_append) (simp_all add: distinct_type_loop)
  then show ?thesis
    by (simp add: analyze_bond_counts_def classify_def Let_def split: prod.splits)
qed

lemma analyze_empty: "analyze_bond_counts [] = Inr ([], [], [])"
  by (simp add: analyze_bond_counts_def key_union_def)

lemma analyze_one_bond:
  "analyze_bond_counts [(3, 0, 1)] =
     Inr ([(0, \<lparr>accepting = 0, donating = 1\<rparr>), (3, \<lparr>accepting = 1, donating = 0\<rparr>)],
          [(''A0D1'', 1), (''A1D0'', 1)],
          [(''A0D1'', 50), (''A1D0'', 50)])"
  by code_simp

text \<open>
  Claim C5. For every bond list \<open>analyze_bond_counts\<close> returns its three dictionaries (each
  with distinct keys); the values of \<open>type_counts\<close> add up to the number of keys of
  \<open>oxygen_bond_counts\<close>, and when \<open>oxygen_bond_counts\<close> is not empty the values of
  \<open>percentages\<close> add up to 100. In this model of the quotients as real numbers the sum is
  exactly 100.
\<close>

theorem analyze_bond_counts_totals:
  "\<exists>obc tc pct. analyze_bond_counts hbonds = Inr (obc, tc, pct)
     \<and> distinct (map fst obc) \<and> distinct (map fst tc) \<and> distinct (map fst pct)
     \<and> sum_list (map snd tc) = length obc
     \<and> (obc \<noteq> [] \<longrightarrow> sum_list (map snd pct) = 100)"
proof -
  let ?obc = "classify hbonds"
  let ?tc = "type_loop ?obc []"
  let ?pct = "map (\<lambda>(bond_type, count). (bond_type, real count / real (length ?obc) * 100)) ?tc"
  have s: "sum_list (map snd ?tc) = length ?obc" by (simp add: sum_type_loop)
  have "distinct (map fst ?tc)" by (simp add: distinct_type_loop)
  then have d: "distinct (map fst ?pct)" by (simp only: keys_percent)
  have "sum_list (map snd ?pct) = 100" if "?obc \<noteq> []"
    using that unfolding sum_percent s by simp
  with s d show ?thesis
    unfolding analyze_total[of hbonds] by (simp add: distinct_classify distinct_type_loop)
qed

theorem analyze_bond_counts_totals_witness:
  "\<exists>obc tc pct. analyze_bond_counts [(3, 0, 1)] = Inr (obc, tc, pct)
     \<and> obc \<noteq> [] \<and> length obc = 2
     \<and> sum_list (map snd tc) = 2
     \<and> sum_list (map snd pct) = 100"
proof -
  from analyze_bond_counts_totals[of "[(3, 0, 1)]"]
  obtain obc tc pct where a: "analyze_bond_counts [(3, 0, 1)] = Inr (obc, tc, pct)"
    and t: "sum_list (map snd tc) = length obc"
    and p: "obc \<noteq> [] \<longrightarrow> sum_list (map snd pct) = 100"
    by blast
  from a have "obc = [(0, \<lparr>accepting = 0, donating = 1\<rparr>), (3, \<lparr>accepting = 1, donating = 0\<rparr>)]"
    unfolding analyze_one_bond by simp
  then have "obc \<noteq> []" "length obc = 2" by simp_all
  with a t p show ?thesis by auto
qed

text \<open>
  Claim C6. On the empty bond list \<open>analyze_bond_counts\<close> returns three empty dictionaries
  and no error: with no entry in \<open>type_counts\<close> the comprehension performs no division by
  the zero count of oxygens.
\<close>

theorem analyze_bond_counts_empty:
  "analyze_bond_counts [] = Inr ([], [], []) \<and> percent_loop 0 [] [] = Inr []"
  by (simp add: analyze_bond_counts_def key_union_def)

section \<open>The whole pipeline\<close>

lemma find_default_chain: "find_hydrogen_bonds_default chain_atoms chain_mols = [(3, 0, 1)]"
  unfolding find_hydrogen_bonds_default_def by (rule find_chain)

lemma average_one_bond: "calculate_average_hbonds [(3, 0, 1)] = Inr 1"
proof -
  have "distinct_oxygens [(3, 0, 1)] = {0, 3}"
    by (auto simp: distinct_oxygens_def)
  then have "card (distinct_oxygens [(3, 0, 1)]) = 2" by simp
  moreover have "int64_indices [(3, 0, 1)]"
    by (simp add: int64_indices_def in_int64_def)
  ultimately show ?thesis
    using average_nonempty[of "[(3, 0, 1)]"] by simp
qed

text \<open>
  The chain of four molecules, where molecule 0 donates one hydrogen to molecule 1 and no
  other pair qualifies.
\<close>

lemma main_chain:
  "main (\<lambda>_. Inr chain_atoms) ''snapshot.xyz'' =
     Inr \<lparr>average_hbonds = 1,
          oxygen_bond_counts =
            [(0, \<lparr>accepting = 0, donating = 1\<rparr>), (3, \<lparr>accepting = 1, donating = 0\<rparr>)],
          type_counts = [(''A0D1'', 1), (''A1D0'', 1)],
          percentages = [(''A0D1'', 50), (''A1D0'', 50)]\<rparr>"
  by (simp add: main_def build_chain find_default_chain average_one_bond analyze_one_bond)

text \<open>
  Claim C8. For an input that is a single water molecule (both of its O-H distances below
  1.5) the builder returns that one molecule, the detector returns the empty bond list (as
  it does for every one-molecule list and all cut-offs), and \<open>main\<close> returns
  \<open>average_hbonds = 0\<close> with empty \<open>oxygen_bond_counts\<close>, \<open>type_counts\<close> and
  \<open>percentages\<close>.
\<close>

theorem single_molecule_pipeline:
  assumes "ase_io_read file_path = Inr atoms"
    and "len_atoms atoms div 3 = 1"
    and "triplet_ok atoms 0"
  shows "build_water_molecules atoms = Inr [\<lparr>O_index = 0, H_indices = [1, 2]\<rparr>]
     \<and> find_hydrogen_bonds atoms [m] dc ac = []
     \<and> find_hydrogen_bonds_default atoms [\<lparr>O_index = 0, H_indices = [1, 2]\<rparr>] = []
     \<and> main ase_io_read file_path =
         Inr \<lparr>average_hbonds = 0, oxygen_bond_counts = [], type_counts = [],
              percentages = []\<rparr>"
proof -
  have "\<forall>i<len_atoms atoms div 3. triplet_ok atoms i"
    using assms(2,3) by simp
  then have "build_water_molecules atoms = Inr (map molecule [0..<len_atoms atoms div 3])"
    by (rule build_ok)
  then have b: "build_water_molecules atoms = Inr [\<lparr>O_index = 0, H_indices = [1, 2]\<rparr>]"
    by (simp add: assms(2) molecule_def)
  have f: "find_hydrogen_bonds_default atoms [m'] = []" for m'
    unfolding find_hydrogen_bonds_default_def by (rule find_single)
  from b f assms(1) show ?thesis
    by (simp add: main_def find_single average_empty analyze_empty)
qed

theorem single_molecule_pipeline_witness:
  "len_atoms single_atoms div 3 = 1 \<and> triplet_ok single_atoms 0
   \<and> build_water_molecules single_atoms = Inr [\<lparr>O_index = 0, H_indices = [1, 2]\<rparr>]
   \<and> find_hydrogen_bonds_default single_atoms [\<lparr>O_index = 0, H_indices = [1, 2]\<rparr>] = []
   \<and> main (\<lambda>_. Inr single_atoms) ''snapshot.xyz'' =
         Inr \<lparr>average_hbonds = 0, oxygen_bond_counts = [], type_counts = [],
              percentages = []\<rparr>"
proof -
  have n: "len_atoms single_atoms div 3 = 1"
    by (simp add: single_atoms_def chain_atoms_def)
  have t: "triplet_ok single_atoms 0"
    by (simp add: single_atoms_def chain_atoms_def triplet_ok_def)
  from single_molecule_pipeline[of "\<lambda>_. Inr single_atoms" "''snapshot.xyz''", OF refl n t] n t
  show ?thesis by simp
qed

end
